theory Spec2Isabelle
  imports Main "HOL-Library.Sublist" "HOL-Library.AList"
begin

section \<open>Exceptions and strings\<close>

text \<open>
  Every \<^verbatim>\<open>raise\<close> of the Python sources is a value of this type; a function that can
  raise returns \<open>error + 'a\<close> with \<open>Inl\<close> the exception. \<open>ZFileMissing\<close> stands for the
  exception that \<^verbatim>\<open>get_zfile\<close> raises for a missing file: the helper lives in
  \<^verbatim>\<open>atomate2.common.file\<close>, which is not among the sources at hand, so the class of that
  exception is left open. \<open>OtherError\<close> is any exception raised inside third-party code
  that none of the modelled \<^verbatim>\<open>except\<close> clauses names.
\<close>

datatype error =
    AttributeError
  | FileNotFoundError string
  | ImportError string
  | ModuleNotFoundError
  | ValueError string
  | ZFileMissing string
  | OtherError string

text \<open>
  File names are strings over 8-bit characters. Python's \<^verbatim>\<open>\d\<close> also accepts the
  decimal digits of other scripts; none of them has a code point below 256, so on the
  names modelled here \<^verbatim>\<open>\d\<close> is \<^verbatim>\<open>[0-9]\<close>.
\<close>

definition is_digit :: "char \<Rightarrow> bool" where
  "is_digit c = (c \<in> set ''0123456789'')"

definition digit_value :: "char \<Rightarrow> int" where
  "digit_value c = int (of_char c) - 48"

text \<open>\<^verbatim>\<open>int(x)\<close> on a string of decimal digits.\<close>

definition py_int :: "string \<Rightarrow> int" where
  "py_int s = foldl (\<lambda>n c. 10 * n + digit_value c) 0 s"

text \<open>\<^verbatim>\<open>p in s\<close> on strings: \<open>p\<close> occurs in \<open>s\<close> as a contiguous piece.\<close>

fun str_contains :: "string \<Rightarrow> string \<Rightarrow> bool" where
  "str_contains p [] = (p = [])"
| "str_contains p (c # cs) = (prefix p (c # cs) \<or> str_contains p cs)"

text \<open>
  \<^verbatim>\<open>max(xs, key=k)\<close> on a non-empty list, given as its first element and the rest: the
  running maximum is replaced only by an element whose key is strictly greater, so of
  several elements with the greatest key the first one is returned.
\<close>

fun py_max_key :: "('a \<Rightarrow> int) \<Rightarrow> 'a \<Rightarrow> 'a list \<Rightarrow> 'a" where
  "py_max_key k m [] = m"
| "py_max_key k m (x # xs) = py_max_key k (if k m < k x then x else m) xs"

section \<open>The file client\<close>

text \<open>
  A file client answers, for a host (\<open>None\<close> is the local filesystem) and a directory
  path, with the directory's entries: file names with their contents, in the order in
  which the client lists them.
\<close>

type_synonym 'c directory = "(string \<times> 'c) list"
type_synonym 'c file_client = "string option \<Rightarrow> string \<Rightarrow> 'c directory"

text \<open>
  Modelled from the spec: \<^verbatim>\<open>FileClient.listdir\<close> and \<^verbatim>\<open>FileClient.glob\<close>
  (\<^verbatim>\<open>atomate2.utils.file_client\<close> is not among the sources). \<open>listdir\<close> gives the names of
  the directory's entries; \<open>glob_relax\<close> is \<^verbatim>\<open>glob(Path(directory) / "*.relax*")\<close>: the
  entries whose name contains \<^verbatim>\<open>.relax\<close>, in listing order.
\<close>

definition listdir :: "'c file_client \<Rightarrow> string \<Rightarrow> string option \<Rightarrow> string list" where
  "listdir file_client path host = map fst (file_client host path)"

definition glob_relax :: "'c file_client \<Rightarrow> string \<Rightarrow> string option \<Rightarrow> string list" where
  "glob_relax file_client directory host =
     filter (str_contains ''.relax'') (listdir file_client directory host)"

section \<open>\<^verbatim>\<open>atomate2/vasp/file.py\<close>: the largest relax extension\<close>

text \<open>
  \<^verbatim>\<open>re.search(r".relax(\d+)", name)\<close>: the leftmost position at which some character
  other than a newline (the dot of the pattern is not escaped) is followed by
  \<^verbatim>\<open>relax\<close> and at least one digit. The result is group 1, the longest run of digits
  there; \<open>None\<close> when there is no such position.
\<close>

fun re_search_relax :: "string \<Rightarrow> string option" where
  "re_search_relax [] = None"
| "re_search_relax (c # cs) =
     (if c \<noteq> CHR 0x0A \<and> prefix ''relax'' cs \<and> takeWhile is_digit (drop 5 cs) \<noteq> []
      then Some (takeWhile is_digit (drop 5 cs))
      else re_search_relax cs)"

text \<open>
  The list comprehension of line 134: \<^verbatim>\<open>.group(1)\<close> on the \<^verbatim>\<open>None\<close> of a failed search
  raises \<^verbatim>\<open>AttributeError\<close>, at the first such file.
\<close>

fun relax_numbers :: "string list \<Rightarrow> error + string list" where
  "relax_numbers [] = Inr []"
| "relax_numbers (f # fs) =
     (case re_search_relax f of
        None \<Rightarrow> Inl AttributeError
      | Some n \<Rightarrow> (case relax_numbers fs of Inl e \<Rightarrow> Inl e | Inr ns \<Rightarrow> Inr (n # ns)))"

definition get_largest_relax_extension ::
    "'c file_client \<Rightarrow> string \<Rightarrow> string option \<Rightarrow> error + string" where
  "get_largest_relax_extension file_client directory host =
     (let relax_files = glob_relax file_client directory host in
      if length relax_files = 0 then Inr ''''
      else
        (case relax_numbers relax_files of
           Inl e \<Rightarrow> Inl e
         | Inr numbers \<Rightarrow> Inr (''.relax'' @ py_max_key py_int (hd numbers) (tl numbers))))"

text \<open>
  The precondition in the words of the specification: the name contains \<^verbatim>\<open>relax\<close>
  immediately followed by a decimal digit.
\<close>

fun relax_then_digit :: "string \<Rightarrow> bool" where
  "relax_then_digit [] = False"
| "relax_then_digit (c # cs) =
     ((prefix ''relax'' (c # cs) \<and> (case drop 5 (c # cs) of [] \<Rightarrow> False | d # _ \<Rightarrow> is_digit d))
      \<or> relax_then_digit cs)"

section \<open>\<^verbatim>\<open>atomate2/vasp/file.py\<close>: copying the outputs of a calculation\<close>

subsection \<open>Helpers that the function calls\<close>

text \<open>
  \<^verbatim>\<open>s.replace(old, new)\<close>: every occurrence of \<open>old\<close>, found from left to right without
  overlap, is replaced. With an empty \<open>old\<close> Python puts \<open>new\<close> before every character
  and at the end.
\<close>

fun str_replace :: "string \<Rightarrow> string \<Rightarrow> string \<Rightarrow> string" where
  "str_replace old new [] = (if old = [] then new else [])"
| "str_replace old new (c # cs) =
     (if old = [] then new @ c # str_replace old new cs
      else if prefix old (c # cs) then new @ str_replace old new (drop (length old) (c # cs))
      else c # str_replace old new cs)"

text \<open>
  Modelled from the spec: \<^verbatim>\<open>strip_hostname\<close> of \<^verbatim>\<open>atomate2.utils.path\<close>, which is not
  among the sources. A path may be written \<^verbatim>\<open>host:/path\<close>; the function keeps what
  follows the last colon, and the whole path when there is none.
\<close>

definition strip_hostname :: "string \<Rightarrow> string" where
  "strip_hostname uri_path = rev (takeWhile (\<lambda>c. c \<noteq> CHR '':'') (rev uri_path))"

text \<open>
  Modelled from the spec: \<^verbatim>\<open>get_zfile\<close> of \<^verbatim>\<open>atomate2.common.file\<close>, which is not among
  the sources. It looks a file up in a directory listing under its name or its gzipped
  name and gives the first entry found. A missing file is \<^verbatim>\<open>None\<close> when
  \<^verbatim>\<open>allow_missing\<close> is set and an exception otherwise.
\<close>

definition get_zfile :: "string list \<Rightarrow> string \<Rightarrow> bool \<Rightarrow> error + string option" where
  "get_zfile directory_listing base_name allow_missing =
     (case find (\<lambda>f. f = base_name \<or> f = base_name @ ''.gz'') directory_listing of
        Some f \<Rightarrow> Inr (Some f)
      | None \<Rightarrow> if allow_missing then Inr None else Inl (ZFileMissing base_name))"

text \<open>
  The current directory, into which the files are copied: a map from file names to
  contents.
\<close>

type_synonym 'c cwd = "string \<rightharpoonup> 'c"

text \<open>
  Modelled from the spec: \<^verbatim>\<open>copy_files\<close>, \<^verbatim>\<open>gunzip_files\<close> and \<^verbatim>\<open>rename_files\<close> of
  \<^verbatim>\<open>atomate2.common.file\<close>, which is not among the sources. They work through their
  argument in order.
  \<^item> \<open>copy_files\<close> copies each named file of the source directory into the current
    directory under the same name, replacing a file of that name.
  \<^item> \<open>gunzip_files\<close> replaces each named file whose name ends in \<^verbatim>\<open>.gz\<close> by its
    decompressed content under the name without \<^verbatim>\<open>.gz\<close>; other files are left as they
    are. Decompression is the parameter \<open>gunzip\<close>.
  \<^item> \<open>rename_files\<close> moves each old name of the dictionary to its new name, replacing a
    file of the new name.
  A file that is not there raises \<^verbatim>\<open>FileNotFoundError\<close>, unless \<^verbatim>\<open>allow_missing\<close> is
  set, in which case it is skipped.
\<close>

fun copy_files ::
    "'c file_client \<Rightarrow> string \<Rightarrow> string option \<Rightarrow> string list \<Rightarrow> 'c cwd \<Rightarrow> error + 'c cwd" where
  "copy_files file_client src_dir src_host [] cwd = Inr cwd"
| "copy_files file_client src_dir src_host (f # include_files) cwd =
     (case map_of (file_client src_host src_dir) f of
        None \<Rightarrow> Inl (FileNotFoundError f)
      | Some c \<Rightarrow> copy_files file_client src_dir src_host include_files (cwd(f \<mapsto> c)))"

definition ends_with_gz :: "string \<Rightarrow> bool" where
  "ends_with_gz f = suffix ''.gz'' f"

definition strip_gz :: "string \<Rightarrow> string" where
  "strip_gz f = take (length f - 3) f"

fun gunzip_files :: "('c \<Rightarrow> 'c) \<Rightarrow> string list \<Rightarrow> bool \<Rightarrow> 'c cwd \<Rightarrow> error + 'c cwd" where
  "gunzip_files gunzip [] allow_missing cwd = Inr cwd"
| "gunzip_files gunzip (f # include_files) allow_missing cwd =
     (if ends_with_gz f then
        (case cwd f of
           None \<Rightarrow>
             if allow_missing then gunzip_files gunzip include_files allow_missing cwd
             else Inl (FileNotFoundError f)
         | Some c \<Rightarrow>
             gunzip_files gunzip include_files allow_missing
               ((cwd(f := None))(strip_gz f \<mapsto> gunzip c)))
      else gunzip_files gunzip include_files allow_missing cwd)"

fun rename_files :: "(string \<times> string) list \<Rightarrow> bool \<Rightarrow> 'c cwd \<Rightarrow> error + 'c cwd" where
  "rename_files [] allow_missing cwd = Inr cwd"
| "rename_files ((old, new) # filenames) allow_missing cwd =
     (case cwd old of
        None \<Rightarrow>
          if allow_missing then rename_files filenames allow_missing cwd
          else Inl (FileNotFoundError old)
      | Some c \<Rightarrow> rename_files filenames allow_missing ((cwd(old := None))(new \<mapsto> c)))"

subsection \<open>\<^verbatim>\<open>copy_vasp_outputs\<close>\<close>

text \<open>
  Line 59, without the additional files: the outputs that are always required.
\<close>

definition vasp_files :: "string list" where
  "vasp_files = [''INCAR'', ''OUTCAR'', ''CONTCAR'', ''vasprun.xml'']"

text \<open>
  Line 60, \<^verbatim>\<open>[get_zfile(directory_listing, r + relax_ext) for r in files]\<close>: the first
  missing file ends the comprehension with the exception of \<^verbatim>\<open>get_zfile\<close>. Without
  \<^verbatim>\<open>allow_missing\<close> that function returns no \<^verbatim>\<open>None\<close>; the branch for it is there for the
  type only.
\<close>

fun required_files :: "string list \<Rightarrow> string list \<Rightarrow> string \<Rightarrow> error + string list" where
  "required_files directory_listing [] relax_ext = Inr []"
| "required_files directory_listing (r # files) relax_ext =
     (case get_zfile directory_listing (r @ relax_ext) False of
        Inl e \<Rightarrow> Inl e
      | Inr None \<Rightarrow> Inl (ZFileMissing (r @ relax_ext))
      | Inr (Some f) \<Rightarrow>
          (case required_files directory_listing files relax_ext of
             Inl e \<Rightarrow> Inl e
           | Inr fs \<Rightarrow> Inr (f # fs)))"

text \<open>Lines 64 to 68: the loop that collects the optional files that are there.\<close>

fun optional_files :: "string list \<Rightarrow> string list \<Rightarrow> error + string list" where
  "optional_files directory_listing [] = Inr []"
| "optional_files directory_listing (file # files) =
     (case get_zfile directory_listing file True of
        Inl e \<Rightarrow> Inl e
      | Inr found_file \<Rightarrow>
          (case optional_files directory_listing files of
             Inl e \<Rightarrow> Inl e
           | Inr fs \<Rightarrow> Inr (case found_file of None \<Rightarrow> fs | Some f \<Rightarrow> f # fs)))"

text \<open>
  Lines 90 to 93: the dictionary comprehension. A Python dictionary keeps its keys in the
  order of their first insertion, and a later value for a key replaces the earlier one;
  \<open>AList.update\<close> does the same on an association list.
\<close>

definition files_to_rename :: "string \<Rightarrow> string list \<Rightarrow> (string \<times> string) list" where
  "files_to_rename relax_ext all_files =
     foldl (\<lambda>d k. AList.update (str_replace ''.gz'' '''' k)
                     (str_replace ''.gz'' '''' (str_replace relax_ext '''' k)) d)
       [] all_files"

definition copy_vasp_outputs ::
    "('c \<Rightarrow> 'c) \<Rightarrow> 'c file_client \<Rightarrow> string \<Rightarrow> string option \<Rightarrow> string list \<Rightarrow> bool
      \<Rightarrow> 'c cwd \<Rightarrow> error + 'c cwd" where
  "copy_vasp_outputs gunzip file_client src_dir0 src_host additional_vasp_files
       contcar_to_poscar cwd =
     (let src_dir = strip_hostname src_dir0 in
      case get_largest_relax_extension file_client src_dir src_host of
        Inl e \<Rightarrow> Inl e
      | Inr relax_ext \<Rightarrow>
     (let directory_listing = listdir file_client src_dir src_host;
          files = vasp_files @ additional_vasp_files in
      case required_files directory_listing files relax_ext of
        Inl e \<Rightarrow> Inl e
      | Inr required \<Rightarrow>
     (case optional_files directory_listing
             [''POTCAR'', ''POTCAR.spec'', ''KPOINTS'' @ relax_ext] of
        Inl e \<Rightarrow> Inl e
      | Inr optional \<Rightarrow>
      if length (filter (str_contains ''POTCAR'') optional) = 0
      then Inl (FileNotFoundError ''Could not find POTCAR file to copy.'')
      else
     (case copy_files file_client src_dir src_host (required @ optional) cwd of
        Inl e \<Rightarrow> Inl e
      | Inr cwd1 \<Rightarrow>
     (case gunzip_files gunzip (required @ optional) True cwd1 of
        Inl e \<Rightarrow> Inl e
      | Inr cwd2 \<Rightarrow>
     (case (if relax_ext \<noteq> []
            then rename_files (files_to_rename relax_ext (optional @ required)) True cwd2
            else Inr cwd2) of
        Inl e \<Rightarrow> Inl e
      | Inr cwd3 \<Rightarrow>
      if contcar_to_poscar then rename_files [(''CONTCAR'', ''POSCAR'')] False cwd3
      else Inr cwd3))))))"

text \<open>
  The words of the specification for a numbered relax file: the name is a base name in
  which \<^verbatim>\<open>relax\<close> does not occur, followed by \<^verbatim>\<open>.relax\<close>, the number \<open>n\<close> (one digit or
  more, all of the digits that stand there) and possibly more, such as \<^verbatim>\<open>.gz\<close>.
\<close>

definition relax_suffix :: "string \<Rightarrow> string \<Rightarrow> bool" where
  "relax_suffix f n \<longleftrightarrow>
     (\<exists>base rest. f = base @ ''.relax'' @ n @ rest \<and> \<not> str_contains ''relax'' base \<and>
        n \<noteq> [] \<and> list_all is_digit n \<and> (case rest of [] \<Rightarrow> True | c # _ \<Rightarrow> \<not> is_digit c))"

section \<open>\<^verbatim>\<open>atomate2/vasp/inputs.py\<close>: writing an input set\<close>

text \<open>
  \<^verbatim>\<open>s.rsplit(".", 1)\<close> on a string that contains a dot: what is before the last dot and
  what is after it.
\<close>

definition rsplit_dot :: "string \<Rightarrow> string \<times> string" where
  "rsplit_dot s =
     (rev (tl (dropWhile (\<lambda>c. c \<noteq> CHR ''.'') (rev s))),
      rev (takeWhile (\<lambda>c. c \<noteq> CHR ''.'') (rev s)))"

text \<open>Lines 44 to 47: the module and the class name that an input-set string names.\<close>

definition input_set_path :: "string \<Rightarrow> string \<times> string" where
  "input_set_path input_set =
     (if CHR ''.'' \<in> set input_set then rsplit_dot input_set
      else (''pymatgen.io.vasp.sets'', input_set))"

text \<open>
  The Python runtime is a parameter: \<open>import_module\<close> is \<^verbatim>\<open>importlib.import_module\<close>, which
  gives a module or raises, and \<open>getattr\<close> looks an attribute of a module up, \<open>None\<close>
  standing for the \<^verbatim>\<open>AttributeError\<close> of a missing one.

  An input-set object is known by what its \<^verbatim>\<open>write_input\<close> method does to the files of
  a directory (of type \<open>'w\<close>) for given keyword arguments. An input-set class has a
  constructor and may have the class method \<^verbatim>\<open>from_prev\<close>.
\<close>

type_synonym 'a kwargs = "(string \<times> 'a) list"

record ('a, 'w) input_set =
  write_input :: "string \<Rightarrow> 'a kwargs \<Rightarrow> 'w \<Rightarrow> error + 'w"

record ('s, 'a, 'w) input_set_class =
  construct :: "'s \<Rightarrow> 'a kwargs \<Rightarrow> error + ('a, 'w) input_set"
  from_prev_method :: "(string \<Rightarrow> 's \<Rightarrow> 'a kwargs \<Rightarrow> error + ('a, 'w) input_set) option"

text \<open>The exceptions that the \<^verbatim>\<open>except\<close> clause of line 51 catches.\<close>

fun import_failure :: "error \<Rightarrow> bool" where
  "import_failure ModuleNotFoundError = True"
| "import_failure AttributeError = True"
| "import_failure (ImportError msg) = True"
| "import_failure e = False"

text \<open>Lines 44 to 52: the class that the input-set string names.\<close>

definition resolve_input_set ::
    "(string \<Rightarrow> error + 'm) \<Rightarrow> ('m \<Rightarrow> string \<Rightarrow> 'cls option) \<Rightarrow> string \<Rightarrow> error + 'cls" where
  "resolve_input_set import_module getattr input_set =
     (case input_set_path input_set of (module, name) \<Rightarrow>
        (case import_module module of
           Inl e \<Rightarrow>
             if import_failure e
             then Inl (ImportError (''Could not import input set '' @ name @ '' from ''
                                     @ module @ ''.''))
             else Inl e
         | Inr m \<Rightarrow>
             (case getattr m name of
                None \<Rightarrow> Inl (ImportError (''Could not import input set '' @ name @ '' from ''
                                           @ module @ ''.''))
              | Some vis_cls \<Rightarrow> Inr vis_cls)))"

text \<open>
  Lines 55 to 58: the input-set object \<^verbatim>\<open>vis\<close>, from the class method \<^verbatim>\<open>from_prev\<close> when
  that is asked for and the class has it, and from the constructor otherwise.
\<close>

definition build_input_set ::
    "('s, 'a, 'w) input_set_class \<Rightarrow> bool \<Rightarrow> 's \<Rightarrow> 'a kwargs \<Rightarrow> error + ('a, 'w) input_set" where
  "build_input_set vis_cls from_prev structure input_set_kwargs =
     (if from_prev \<and> from_prev_method vis_cls \<noteq> None
      then the (from_prev_method vis_cls) ''.'' structure input_set_kwargs
      else construct vis_cls structure input_set_kwargs)"

definition write_vasp_input_set ::
    "(string \<Rightarrow> error + 'm) \<Rightarrow> ('m \<Rightarrow> string \<Rightarrow> ('s, 'a, 'w) input_set_class option)
      \<Rightarrow> 's \<Rightarrow> string \<Rightarrow> 'a kwargs option \<Rightarrow> 'a kwargs option \<Rightarrow> bool \<Rightarrow> 'w \<Rightarrow> error + 'w" where
  "write_vasp_input_set import_module getattr structure input_set input_set_kwargs0
       write_input_kwargs0 from_prev files =
     (let input_set_kwargs = (case input_set_kwargs0 of None \<Rightarrow> [] | Some k \<Rightarrow> k);
          write_input_kwargs = (case write_input_kwargs0 of None \<Rightarrow> [] | Some k \<Rightarrow> k) in
      case resolve_input_set import_module getattr input_set of
        Inl e \<Rightarrow> Inl e
      | Inr vis_cls \<Rightarrow>
          (case build_input_set vis_cls from_prev structure input_set_kwargs of
             Inl e \<Rightarrow> Inl e
           | Inr vis \<Rightarrow> write_input vis ''.'' write_input_kwargs files))"

section \<open>\<^verbatim>\<open>tests/vasp/conftest.py\<close>: faking a VASP run\<close>

text \<open>
  The working directory of the test is a map from file names to the text of the files.
  A reference directory has the folder \<^verbatim>\<open>inputs\<close>, of which only the files are read, and
  the folder \<^verbatim>\<open>outputs\<close>, whose entries are regular files or something else (a
  subdirectory); \<open>None\<close> is a folder that does not exist.
\<close>

datatype dir_entry = RegularFile string | Subdirectory

record ref_dir =
  inputs_dir :: "string \<rightharpoonup> string"
  outputs_dir :: "(string \<times> dir_entry) list option"

text \<open>
  What pymatgen reads from the four input files, as far as the checks look at it. A
  number of an INCAR is \<open>NumV m e\<close>, \<open>m\<close> times ten to the power \<open>e\<close>; the parser is
  taken to give equal numbers in the same form, so that Python's comparison of two values
  is equality here.
\<close>

datatype incar_value = NumV int int | StrV string | BoolV bool

record kpoints =
  kpoints_style :: string
  num_kpts :: int

record poscar =
  natoms :: "int list"
  site_symbols :: "string list"

text \<open>
  The parsers of pymatgen are parameters: each turns the text of a file into the parsed
  object or raises.
\<close>

record pymatgen =
  parse_incar :: "string \<Rightarrow> error + (string \<rightharpoonup> incar_value)"
  parse_kpoints :: "string \<Rightarrow> error + kpoints"
  parse_poscar :: "string \<Rightarrow> error + poscar"
  parse_potcar :: "string \<Rightarrow> error + string list"

text \<open>\<^verbatim>\<open>X.from_file(path)\<close>: a missing file raises before the parser runs.\<close>

definition from_file :: "(string \<Rightarrow> error + 'a) \<Rightarrow> (string \<rightharpoonup> string) \<Rightarrow> string \<Rightarrow> error + 'a" where
  "from_file parse dir name =
     (case dir name of None \<Rightarrow> Inl (FileNotFoundError name) | Some text \<Rightarrow> parse text)"

text \<open>\<^verbatim>\<open>s.split("\n")\<close>.\<close>

fun split_lines :: "string \<Rightarrow> string list" where
  "split_lines [] = [[]]"
| "split_lines (c # cs) =
     (if c = CHR 0x0A then [] # split_lines cs
      else (case split_lines cs of [] \<Rightarrow> [[c]] | l # ls \<Rightarrow> (c # l) # ls))"

text \<open>
  Line 149; \<^verbatim>\<open>0.2\<close> is \<open>NumV 2 (-1)\<close>.
\<close>

definition incar_defaults :: "string \<rightharpoonup> incar_value" where
  "incar_defaults =
     [''ISPIN'' \<mapsto> NumV 1 0, ''ISMEAR'' \<mapsto> NumV 1 0, ''SIGMA'' \<mapsto> NumV 2 (-1)]"

text \<open>\<^verbatim>\<open>d.get(p, default)\<close>, where the default may itself be \<^verbatim>\<open>None\<close>.\<close>

definition dict_get :: "(string \<rightharpoonup> 'v) \<Rightarrow> string \<Rightarrow> 'v option \<Rightarrow> 'v option" where
  "dict_get d p dflt = (case d p of Some v \<Rightarrow> Some v | None \<Rightarrow> dflt)"

text \<open>
  The checks read files and raise or return; \<open>Some e\<close> is the exception raised and
  \<open>None\<close> a check that passed. None of them writes.
\<close>

fun check_incar_settings ::
    "(string \<rightharpoonup> incar_value) \<Rightarrow> (string \<rightharpoonup> incar_value) \<Rightarrow> string list \<Rightarrow> error option" where
  "check_incar_settings user ref [] = None"
| "check_incar_settings user ref (p # incar_settings) =
     (if dict_get user p (incar_defaults p) \<noteq> dict_get ref p (incar_defaults p)
      then Some (ValueError (''INCAR value of '' @ p @ '' is inconsistent''))
      else check_incar_settings user ref incar_settings)"

definition check_incar ::
    "pymatgen \<Rightarrow> ref_dir \<Rightarrow> string list \<Rightarrow> (string \<rightharpoonup> string) \<Rightarrow> error option" where
  "check_incar pmg ref_path incar_settings cwd =
     (case from_file (parse_incar pmg) cwd ''INCAR'' of
        Inl e \<Rightarrow> Some e
      | Inr user \<Rightarrow>
          (case from_file (parse_incar pmg) (inputs_dir ref_path) ''INCAR'' of
             Inl e \<Rightarrow> Some e
           | Inr ref \<Rightarrow> check_incar_settings user ref incar_settings))"

definition check_kpoints :: "pymatgen \<Rightarrow> ref_dir \<Rightarrow> (string \<rightharpoonup> string) \<Rightarrow> error option" where
  "check_kpoints pmg ref_path cwd =
     (case from_file (parse_kpoints pmg) cwd ''KPOINTS'' of
        Inl e \<Rightarrow> Some e
      | Inr user \<Rightarrow>
          (case from_file (parse_kpoints pmg) (inputs_dir ref_path) ''KPOINTS'' of
             Inl e \<Rightarrow> Some e
           | Inr ref \<Rightarrow>
               if kpoints_style user \<noteq> kpoints_style ref \<or> num_kpts user \<noteq> num_kpts ref
               then Some (ValueError ''KPOINTS files are inconsistent'')
               else None))"

definition check_poscar :: "pymatgen \<Rightarrow> ref_dir \<Rightarrow> (string \<rightharpoonup> string) \<Rightarrow> error option" where
  "check_poscar pmg ref_path cwd =
     (case from_file (parse_poscar pmg) cwd ''POSCAR'' of
        Inl e \<Rightarrow> Some e
      | Inr user \<Rightarrow>
          (case from_file (parse_poscar pmg) (inputs_dir ref_path) ''POSCAR'' of
             Inl e \<Rightarrow> Some e
           | Inr ref \<Rightarrow>
               if natoms user \<noteq> natoms ref \<or> site_symbols user \<noteq> site_symbols ref
               then Some (ValueError ''POSCAR files are inconsistent'')
               else None))"

definition check_potcar :: "pymatgen \<Rightarrow> ref_dir \<Rightarrow> (string \<rightharpoonup> string) \<Rightarrow> error option" where
  "check_potcar pmg ref_path cwd =
     (case from_file (parse_potcar pmg) (inputs_dir ref_path) ''POTCAR'' of
        Inl e \<Rightarrow> Some e
      | Inr ref_symbols \<Rightarrow>
          if cwd ''POTCAR'' \<noteq> None then
            (case from_file (parse_potcar pmg) cwd ''POTCAR'' of
               Inl e \<Rightarrow> Some e
             | Inr user_symbols \<Rightarrow>
                 if user_symbols \<noteq> ref_symbols
                 then Some (ValueError ''POTCAR files are inconsistent'')
                 else None)
          else if cwd ''POTCAR.spec'' \<noteq> None then
            (if split_lines (the (cwd ''POTCAR.spec'')) \<noteq> ref_symbols
             then Some (ValueError ''POTCAR symbols are inconsistent'')
             else None)
          else Some (FileNotFoundError ''no POTCAR or POTCAR.spec file found''))"

text \<open>Lines 190 to 202: the files that are removed when they exist.\<close>

definition cleared_inputs :: "string list" where
  "cleared_inputs =
     [''INCAR'', ''KPOINTS'', ''POSCAR'', ''POTCAR'', ''CHGCAR'', ''OUTCAR'', ''vasprun.xml'']"

fun unlink_existing :: "string list \<Rightarrow> (string \<rightharpoonup> string) \<Rightarrow> (string \<rightharpoonup> string)" where
  "unlink_existing [] cwd = cwd"
| "unlink_existing (vasp_file # rest) cwd =
     unlink_existing rest (if cwd vasp_file \<noteq> None then cwd(vasp_file := None) else cwd)"

definition clear_vasp_inputs :: "(string \<rightharpoonup> string) \<Rightarrow> (string \<rightharpoonup> string)" where
  "clear_vasp_inputs cwd = unlink_existing cleared_inputs cwd"

text \<open>
  Lines 205 to 211, the \<^verbatim>\<open>copy_vasp_outputs\<close> of the test module (the name of the function
  of \<^verbatim>\<open>atomate2/vasp/file.py\<close> is taken): every regular file of the folder \<^verbatim>\<open>outputs\<close> is
  copied into the working directory under its own name.
\<close>

fun copy_regular_files :: "(string \<times> dir_entry) list \<Rightarrow> (string \<rightharpoonup> string) \<Rightarrow> (string \<rightharpoonup> string)" where
  "copy_regular_files [] cwd = cwd"
| "copy_regular_files ((name, RegularFile text) # entries) cwd =
     copy_regular_files entries (cwd(name \<mapsto> text))"
| "copy_regular_files ((name, Subdirectory) # entries) cwd = copy_regular_files entries cwd"

definition copy_vasp_outputs_conftest ::
    "ref_dir \<Rightarrow> (string \<rightharpoonup> string) \<Rightarrow> error option \<times> (string \<rightharpoonup> string)" where
  "copy_vasp_outputs_conftest ref_path cwd =
     (case outputs_dir ref_path of
        None \<Rightarrow> (Some (FileNotFoundError ''outputs''), cwd)
      | Some entries \<Rightarrow> (None, copy_regular_files entries cwd))"

text \<open>Lines 121 to 131: the requested checks, in the order of the source.\<close>

definition input_checks ::
    "pymatgen \<Rightarrow> ref_dir \<Rightarrow> string list \<Rightarrow> string list \<Rightarrow> (string \<rightharpoonup> string) \<Rightarrow> error option" where
  "input_checks pmg ref_path incar_settings check_inputs cwd =
     (case (if ''incar'' \<in> set check_inputs then check_incar pmg ref_path incar_settings cwd
            else None) of
        Some e \<Rightarrow> Some e
      | None \<Rightarrow>
     (case (if ''kpoints'' \<in> set check_inputs then check_kpoints pmg ref_path cwd else None) of
        Some e \<Rightarrow> Some e
      | None \<Rightarrow>
     (case (if ''poscar'' \<in> set check_inputs then check_poscar pmg ref_path cwd else None) of
        Some e \<Rightarrow> Some e
      | None \<Rightarrow>
        (if ''potcar'' \<in> set check_inputs then check_potcar pmg ref_path cwd else None))))"

text \<open>
  \<^verbatim>\<open>fake_run_vasp\<close> returns the exception raised, if any, and the working directory as it
  is when the function returns or raises.
\<close>

definition fake_run_vasp ::
    "pymatgen \<Rightarrow> ref_dir \<Rightarrow> string list \<Rightarrow> string list \<Rightarrow> bool \<Rightarrow> (string \<rightharpoonup> string)
      \<Rightarrow> error option \<times> (string \<rightharpoonup> string)" where
  "fake_run_vasp pmg ref_path incar_settings check_inputs clear_inputs cwd =
     (case input_checks pmg ref_path incar_settings check_inputs cwd of
        Some e \<Rightarrow> (Some e, cwd)
      | None \<Rightarrow>
          copy_vasp_outputs_conftest ref_path
            (if clear_inputs then clear_vasp_inputs cwd else cwd))"

text \<open>The names of the regular files of a folder, for stating what is copied.\<close>

fun regular_names :: "(string \<times> dir_entry) list \<Rightarrow> string set" where
  "regular_names [] = {}"
| "regular_names ((name, RegularFile text) # entries) = insert name (regular_names entries)"
| "regular_names ((name, Subdirectory) # entries) = regular_names entries"

section \<open>Example inputs\<close>

text \<open>
  A Python runtime that has the one module \<^verbatim>\<open>pymatgen.io.vasp.sets\<close> with the one class
  \<^verbatim>\<open>MPStaticSet\<close>. An input set of the class writes a single file, named after the way it
  was built and the structure it was built from.
\<close>

definition sets_only :: "string \<Rightarrow> error + nat" where
  "sets_only module =
     (if module = ''pymatgen.io.vasp.sets'' then Inr 0 else Inl ModuleNotFoundError)"

definition one_file_set :: "string \<Rightarrow> (string, string list) input_set" where
  "one_file_set tag = \<lparr>write_input = (\<lambda>dir kw files. Inr (files @ [dir @ ''/'' @ tag]))\<rparr>"

definition static_set_class :: "(string, string, string list) input_set_class" where
  "static_set_class =
     \<lparr>construct = (\<lambda>s kw. Inr (one_file_set (''new-'' @ s))),
      from_prev_method = Some (\<lambda>dir s kw. Inr (one_file_set (''prev-'' @ s)))\<rparr>"

definition static_only ::
    "nat \<Rightarrow> string \<Rightarrow> (string, string, string list) input_set_class option" where
  "static_only m name = (if name = ''MPStaticSet'' then Some static_set_class else None)"

text \<open>
  Parsers that keep the text they read, a working directory with an INCAR, a
  \<^verbatim>\<open>POTCAR.spec\<close> and a job script, and two reference directories: one that agrees with
  the working directory and one whose INCAR differs.
\<close>

definition text_parsers :: pymatgen where
  "text_parsers =
     \<lparr>parse_incar = (\<lambda>t. Inr [''NSW'' \<mapsto> StrV t]),
      parse_kpoints = (\<lambda>t. Inr \<lparr>kpoints_style = t, num_kpts = 1\<rparr>),
      parse_poscar = (\<lambda>t. Inr \<lparr>natoms = [1], site_symbols = [t]\<rparr>),
      parse_potcar = (\<lambda>t. Inr (split_lines t))\<rparr>"

definition work_dir :: "string \<rightharpoonup> string" where
  "work_dir = [''INCAR'' \<mapsto> ''NSW = 0'', ''POTCAR.spec'' \<mapsto> ''Si'', ''job.sh'' \<mapsto> ''vasp'']"

definition good_ref :: ref_dir where
  "good_ref =
     \<lparr>inputs_dir = [''INCAR'' \<mapsto> ''NSW = 0'', ''POTCAR'' \<mapsto> ''Si''],
      outputs_dir = Some [(''OUTCAR'', RegularFile ''done''), (''scratch'', Subdirectory),
                          (''vasprun.xml'', RegularFile ''<xml/>'')]\<rparr>"

definition other_ref :: ref_dir where
  "other_ref =
     \<lparr>inputs_dir = [''INCAR'' \<mapsto> ''NSW = 99'', ''POTCAR'' \<mapsto> ''Si''],
      outputs_dir = Some [(''OUTCAR'', RegularFile ''done'')]\<rparr>"

text \<open>
  A file client for two hosts: the host \<^verbatim>\<open>remote\<close> holds a finished calculation in every
  directory, and the local filesystem holds empty directories.
\<close>

definition finished_calc :: "nat directory" where
  "finished_calc =
     [(''INCAR'', 1), (''OUTCAR'', 2), (''CONTCAR'', 3), (''vasprun.xml'', 4), (''POTCAR'', 5),
      (''POSCAR'', 6)]"

definition two_hosts :: "nat file_client" where
  "two_hosts host path = (if host = Some ''remote'' then finished_calc else [])"

section \<open>Properties of the largest relax extension\<close>

lemma relax_then_digit_iff:
  "relax_then_digit s \<longleftrightarrow> (\<exists>pre d post. s = pre @ ''relax'' @ d # post \<and> is_digit d)"
proof (induction s)
  case Nil
  show ?case by simp
next
  case (Cons c cs)
  show ?case
  proof
    assume "relax_then_digit (c # cs)"
    then consider
      (here) "prefix ''relax'' (c # cs)"
        "case drop 5 (c # cs) of [] \<Rightarrow> False | d # _ \<Rightarrow> is_digit d"
      | (later) "relax_then_digit cs"
      by auto
    then show "\<exists>pre d post. c # cs = pre @ ''relax'' @ d # post \<and> is_digit d"
    proof cases
      case here
      from here(1) obtain t where t: "c # cs = ''relax'' @ t"
        by (auto simp: prefix_def)
      with here(2) obtain d post where "t = d # post" "is_digit d"
        by (cases t) auto
      with t have "c # cs = [] @ ''relax'' @ d # post \<and> is_digit d" by simp
      then show ?thesis by blast
    next
      case later
      with Cons.IH obtain pre d post where
        "cs = pre @ ''relax'' @ d # post" "is_digit d" by blast
      then have "c # cs = (c # pre) @ ''relax'' @ d # post \<and> is_digit d" by simp
      then show ?thesis by blast
    qed
  next
    assume "\<exists>pre d post. c # cs = pre @ ''relax'' @ d # post \<and> is_digit d"
    then obtain pre d post where eq: "c # cs = pre @ ''relax'' @ d # post" and d: "is_digit d"
      by blast
    show "relax_then_digit (c # cs)"
    proof (cases pre)
      case Nil
      with eq d show ?thesis by auto
    next
      case (Cons p pre')
      with eq have "cs = pre' @ ''relax'' @ d # post" by simp
      with d Cons.IH have "relax_then_digit cs" by blast
      then show ?thesis by simp
    qed
  qed
qed

lemma re_search_relax_then_digit:
  "re_search_relax s = Some n \<Longrightarrow> relax_then_digit s"
proof (induction s)
  case Nil
  then show ?case by simp
next
  case (Cons c cs)
  show ?case
  proof (cases "c \<noteq> CHR 0x0A \<and> prefix ''relax'' cs \<and> takeWhile is_digit (drop 5 cs) \<noteq> []")
    case True
    then obtain t where t: "cs = ''relax'' @ t" by (auto simp: prefix_def)
    with True have "takeWhile is_digit t \<noteq> []" by simp
    then obtain d post where "t = d # post" "is_digit d"
      by (cases t) (auto split: if_splits)
    with t have "relax_then_digit cs" by simp
    then show ?thesis by simp
  next
    case False
    with Cons.prems have "re_search_relax cs = Some n" by (simp split: if_splits)
    with Cons.IH have "relax_then_digit cs" by blast
    then show ?thesis by simp
  qed
qed

lemma relax_numbers_Inr_all:
  "relax_numbers fs = Inr ns \<Longrightarrow> f \<in> set fs \<Longrightarrow> \<exists>n. re_search_relax f = Some n"
  by (induction fs arbitrary: ns) (auto split: option.splits sum.splits)

lemma relax_numbers_error:
  "relax_numbers fs = Inl e \<Longrightarrow> e = AttributeError"
  by (induction fs) (auto split: option.splits sum.splits)

text \<open>
  Claim C5. \<^verbatim>\<open>get_largest_relax_extension\<close> returns a string only if every file
  matching \<^verbatim>\<open>*.relax*\<close> has a name in which \<^verbatim>\<open>relax\<close> is immediately followed by a
  decimal digit; a single matching file without that shape makes it raise
  \<^verbatim>\<open>AttributeError\<close>. A directory that holds just \<^verbatim>\<open>POSCAR.relax_backup\<close> is such an
  input: the glob selects the file, the regular expression finds no match in it, and
  the call raises.
\<close>

theorem get_largest_relax_extension_total_only_if:
  "(get_largest_relax_extension file_client directory host = Inr ext \<longrightarrow>
      (\<forall>f \<in> set (glob_relax file_client directory host). relax_then_digit f)) \<and>
   ((\<exists>f \<in> set (glob_relax file_client directory host). \<not> relax_then_digit f) \<longrightarrow>
      get_largest_relax_extension file_client directory host = Inl AttributeError) \<and>
   glob_relax (\<lambda>h d. [(''POSCAR.relax_backup'', c)]) directory host
     = [''POSCAR.relax_backup''] \<and>
   \<not> relax_then_digit ''POSCAR.relax_backup'' \<and>
   re_search_relax ''POSCAR.relax_backup'' = None \<and>
   get_largest_relax_extension (\<lambda>h d. [(''POSCAR.relax_backup'', c)]) directory host
     = Inl AttributeError"
proof (intro conjI impI ballI)
  fix f
  assume ok: "get_largest_relax_extension file_client directory host = Inr ext"
    and f: "f \<in> set (glob_relax file_client directory host)"
  from f have ne: "glob_relax file_client directory host \<noteq> []" by auto
  with ok obtain ns where "relax_numbers (glob_relax file_client directory host) = Inr ns"
    by (auto simp: get_largest_relax_extension_def Let_def split: sum.splits)
  with f obtain n where "re_search_relax f = Some n"
    using relax_numbers_Inr_all by blast
  then show "relax_then_digit f" by (rule re_search_relax_then_digit)
next
  assume "\<exists>f \<in> set (glob_relax file_client directory host). \<not> relax_then_digit f"
  then obtain f where f: "f \<in> set (glob_relax file_client directory host)"
    and bad: "\<not> relax_then_digit f" by blast
  from f have ne: "glob_relax file_client directory host \<noteq> []" by auto
  have "\<not> (\<exists>ns. relax_numbers (glob_relax file_client directory host) = Inr ns)"
  proof
    assume "\<exists>ns. relax_numbers (glob_relax file_client directory host) = Inr ns"
    then obtain ns where "relax_numbers (glob_relax file_client directory host) = Inr ns" ..
    with f obtain n where "re_search_relax f = Some n"
      using relax_numbers_Inr_all by blast
    with bad show False using re_search_relax_then_digit by blast
  qed
  then obtain e where e: "relax_numbers (glob_relax file_client directory host) = Inl e"
    by (cases "relax_numbers (glob_relax file_client directory host)") auto
  then have "e = AttributeError" by (rule relax_numbers_error)
  with e ne show "get_largest_relax_extension file_client directory host = Inl AttributeError"
    by (simp add: get_largest_relax_extension_def Let_def)
next
  show "glob_relax (\<lambda>h d. [(''POSCAR.relax_backup'', c)]) directory host
      = [''POSCAR.relax_backup'']"
    by (simp add: glob_relax_def listdir_def)
next
  show "\<not> relax_then_digit ''POSCAR.relax_backup''" by (simp add: is_digit_def)
next
  show "re_search_relax ''POSCAR.relax_backup'' = None" by (simp add: is_digit_def)
next
  show "get_largest_relax_extension (\<lambda>h d. [(''POSCAR.relax_backup'', c)]) directory host
     = Inl AttributeError"
    by (simp add: get_largest_relax_extension_def glob_relax_def listdir_def is_digit_def)
qed

theorem get_largest_relax_extension_total_only_if_witness:
  "get_largest_relax_extension (\<lambda>h d. [(''INCAR.relax2'', ()), (''POTCAR'', ())]) ''calc'' None
     = Inr ''.relax2'' \<and>
   glob_relax (\<lambda>h d. [(''INCAR.relax2'', ()), (''POTCAR'', ())]) ''calc'' None
     = [''INCAR.relax2''] \<and>
   relax_then_digit ''INCAR.relax2'' \<and>
   get_largest_relax_extension
      (\<lambda>h d. [(''INCAR.relax2'', ()), (''OUTCAR.relax_old'', ())]) ''calc'' None
     = Inl AttributeError"
  using
    get_largest_relax_extension_total_only_if
      [of "\<lambda>h d. [(''INCAR.relax2'', ()), (''POTCAR'', ())]" "''calc''" None "''.relax2''"]
    get_largest_relax_extension_total_only_if
      [of "\<lambda>h d. [(''INCAR.relax2'', ()), (''OUTCAR.relax_old'', ())]" "''calc''" None "''''"]
  by (simp add: get_largest_relax_extension_def glob_relax_def listdir_def is_digit_def)

section \<open>Properties of \<^verbatim>\<open>write_vasp_input_set\<close>\<close>

lemma rsplit_dot_parts:
  assumes "CHR ''.'' \<in> set s"
  shows "\<exists>module name. s = module @ ''.'' @ name \<and> CHR ''.'' \<notin> set name
           \<and> rsplit_dot s = (module, name)"
proof -
  let ?P = "\<lambda>c. c \<noteq> CHR ''.''"
  let ?a = "takeWhile ?P (rev s)" and ?b = "dropWhile ?P (rev s)"
  from assms have "\<not> (\<forall>c \<in> set (rev s). ?P c)" by auto
  then have "?b \<noteq> []" by (simp add: dropWhile_eq_Nil_conv)
  then have hd: "hd ?b = CHR ''.''" using hd_dropWhile [of ?P "rev s"] by auto
  with \<open>?b \<noteq> []\<close> have b: "?b = CHR ''.'' # tl ?b" by (cases ?b) auto
  have "rev s = ?a @ ?b" by simp
  then have "rev s = ?a @ CHR ''.'' # tl ?b" using b by simp
  then have "rev (rev s) = rev (?a @ CHR ''.'' # tl ?b)" by (rule arg_cong)
  then have s: "s = rev (tl ?b) @ ''.'' @ rev ?a" by simp
  have "\<forall>c \<in> set ?a. ?P c" by (auto dest: set_takeWhileD)
  then have "CHR ''.'' \<notin> set (rev ?a)" by auto
  with s show ?thesis unfolding rsplit_dot_def by blast
qed

text \<open>
  Claim C3. \<^verbatim>\<open>write_vasp_input_set\<close> finds the input-set class by the string: a string
  with a dot is split at its last dot into the module to import and the class name; a
  string without a dot names a class of \<^verbatim>\<open>pymatgen.io.vasp.sets\<close>. The class is the
  attribute of that name of the imported module. When the import raises
  \<^verbatim>\<open>ModuleNotFoundError\<close>, \<^verbatim>\<open>ImportError\<close> or \<^verbatim>\<open>AttributeError\<close>, or the module has no
  such attribute, the function raises \<^verbatim>\<open>ImportError\<close>.
\<close>

theorem write_vasp_input_set_resolves_by_path:
  "(CHR ''.'' \<in> set input_set \<longrightarrow>
      (\<exists>module name. input_set = module @ ''.'' @ name \<and> CHR ''.'' \<notin> set name \<and>
         input_set_path input_set = (module, name))) \<and>
   (CHR ''.'' \<notin> set input_set \<longrightarrow>
      input_set_path input_set = (''pymatgen.io.vasp.sets'', input_set)) \<and>
   (input_set_path input_set = (module, name) \<longrightarrow>
      (import_module module = Inr m \<and> getattr m name = Some vis_cls \<longrightarrow>
         resolve_input_set import_module getattr input_set = Inr vis_cls) \<and>
      ((import_module module = Inl e \<and> import_failure e) \<or>
       (import_module module = Inr m \<and> getattr m name = None) \<longrightarrow>
         write_vasp_input_set import_module getattr structure input_set input_set_kwargs
             write_input_kwargs from_prev files
           = Inl (ImportError (''Could not import input set '' @ name @ '' from ''
                                @ module @ ''.''))))"
proof (intro conjI impI)
  assume "CHR ''.'' \<in> set input_set"
  then show "\<exists>module name. input_set = module @ ''.'' @ name \<and> CHR ''.'' \<notin> set name \<and>
         input_set_path input_set = (module, name)"
    using rsplit_dot_parts [of input_set] by (simp add: input_set_path_def)
next
  assume "CHR ''.'' \<notin> set input_set"
  then show "input_set_path input_set = (''pymatgen.io.vasp.sets'', input_set)"
    by (simp add: input_set_path_def)
next
  assume "input_set_path input_set = (module, name)"
    and "import_module module = Inr m \<and> getattr m name = Some vis_cls"
  then show "resolve_input_set import_module getattr input_set = Inr vis_cls"
    by (simp add: resolve_input_set_def)
next
  assume "input_set_path input_set = (module, name)"
    and "(import_module module = Inl e \<and> import_failure e) \<or>
       (import_module module = Inr m \<and> getattr m name = None)"
  then have "resolve_input_set import_module getattr input_set
      = Inl (ImportError (''Could not import input set '' @ name @ '' from '' @ module @ ''.''))"
    by (auto simp: resolve_input_set_def)
  then show "write_vasp_input_set import_module getattr structure input_set input_set_kwargs
             write_input_kwargs from_prev files
           = Inl (ImportError (''Could not import input set '' @ name @ '' from ''
                                @ module @ ''.''))"
    by (simp add: write_vasp_input_set_def Let_def)
qed

theorem write_vasp_input_set_resolves_by_path_witness:
  "input_set_path ''mypackage.mymodule.InputSet'' = (''mypackage.mymodule'', ''InputSet'') \<and>
   input_set_path ''MPStaticSet'' = (''pymatgen.io.vasp.sets'', ''MPStaticSet'') \<and>
   resolve_input_set sets_only static_only ''MPStaticSet'' = Inr static_set_class \<and>
   write_vasp_input_set sets_only static_only ''Si'' ''mypackage.mymodule.InputSet''
       None None False []
     = Inl (ImportError ''Could not import input set InputSet from mypackage.mymodule.'') \<and>
   write_vasp_input_set sets_only static_only ''Si'' ''NoSuchSet'' None None False []
     = Inl (ImportError ''Could not import input set NoSuchSet from pymatgen.io.vasp.sets.'')"
  using
    write_vasp_input_set_resolves_by_path
      [of "''mypackage.mymodule.InputSet''" "''mypackage.mymodule''" "''InputSet''"
          sets_only 0 static_only static_set_class ModuleNotFoundError
          "''Si''" None None False "[]"]
    write_vasp_input_set_resolves_by_path
      [of "''MPStaticSet''" "''pymatgen.io.vasp.sets''" "''MPStaticSet''"
          sets_only 0 static_only static_set_class ModuleNotFoundError
          "''Si''" None None False "[]"]
    write_vasp_input_set_resolves_by_path
      [of "''NoSuchSet''" "''pymatgen.io.vasp.sets''" "''NoSuchSet''"
          sets_only 0 static_only static_set_class ModuleNotFoundError
          "''Si''" None None False "[]"]
  by (simp add: input_set_path_def rsplit_dot_def sets_only_def static_only_def)

text \<open>
  Claim C8. Once the class is found, \<^verbatim>\<open>write_vasp_input_set\<close> builds the input-set object
  from the structure and \<^verbatim>\<open>input_set_kwargs\<close> (an absent dictionary is the empty one):
  through \<^verbatim>\<open>from_prev\<close> of the class, called on the current directory, when
  \<^verbatim>\<open>from_prev\<close> is set and the class has that method, and through the constructor
  otherwise. It then calls \<^verbatim>\<open>write_input\<close> of the object on the current directory with
  \<^verbatim>\<open>write_input_kwargs\<close>, and that call is all that is written. The structure reaches the
  files through the object only: two structures from which the same object is built give
  the same result.
\<close>

theorem write_vasp_input_set_writes_through_input_set:
  "resolve_input_set import_module getattr input_set = Inr vis_cls \<longrightarrow>
   build_input_set vis_cls from_prev structure
       (case input_set_kwargs of None \<Rightarrow> [] | Some k \<Rightarrow> k)
     = (case (if from_prev then from_prev_method vis_cls else None) of
          Some from_prev_of_class \<Rightarrow>
            from_prev_of_class ''.'' structure
              (case input_set_kwargs of None \<Rightarrow> [] | Some k \<Rightarrow> k)
        | None \<Rightarrow>
            construct vis_cls structure (case input_set_kwargs of None \<Rightarrow> [] | Some k \<Rightarrow> k)) \<and>
   write_vasp_input_set import_module getattr structure input_set input_set_kwargs
       write_input_kwargs from_prev files
     = (case build_input_set vis_cls from_prev structure
               (case input_set_kwargs of None \<Rightarrow> [] | Some k \<Rightarrow> k) of
          Inl e \<Rightarrow> Inl e
        | Inr vis \<Rightarrow>
            write_input vis ''.''
              (case write_input_kwargs of None \<Rightarrow> [] | Some k \<Rightarrow> k) files) \<and>
   (build_input_set vis_cls from_prev structure'
        (case input_set_kwargs of None \<Rightarrow> [] | Some k \<Rightarrow> k)
      = build_input_set vis_cls from_prev structure
          (case input_set_kwargs of None \<Rightarrow> [] | Some k \<Rightarrow> k) \<longrightarrow>
    write_vasp_input_set import_module getattr structure' input_set input_set_kwargs
        write_input_kwargs from_prev files
      = write_vasp_input_set import_module getattr structure input_set input_set_kwargs
          write_input_kwargs from_prev files)"
  by (cases "from_prev_method vis_cls")
    (simp_all add: write_vasp_input_set_def build_input_set_def Let_def)

theorem write_vasp_input_set_writes_through_input_set_witness:
  "resolve_input_set sets_only static_only ''MPStaticSet'' = Inr static_set_class \<and>
   build_input_set static_set_class False ''Si'' [] = Inr (one_file_set ''new-Si'') \<and>
   build_input_set static_set_class True ''Si'' [] = Inr (one_file_set ''prev-Si'') \<and>
   write_vasp_input_set sets_only static_only ''Si'' ''MPStaticSet'' None None False []
     = Inr [''./new-Si''] \<and>
   write_vasp_input_set sets_only static_only ''Si'' ''MPStaticSet'' None None True []
     = Inr [''./prev-Si'']"
  using
    write_vasp_input_set_writes_through_input_set
      [of sets_only static_only "''MPStaticSet''" static_set_class False "''Si''" None
          None "[]" "''Si''"]
    write_vasp_input_set_writes_through_input_set
      [of sets_only static_only "''MPStaticSet''" static_set_class True "''Si''" None
          None "[]" "''Si''"]
  by (simp add: resolve_input_set_def input_set_path_def sets_only_def static_only_def
        static_set_class_def one_file_set_def)

section \<open>Properties of \<^verbatim>\<open>fake_run_vasp\<close>\<close>

lemma regular_names_iff:
  "n \<in> regular_names entries \<longleftrightarrow> (\<exists>t. (n, RegularFile t) \<in> set entries)"
  by (induction entries rule: regular_names.induct) auto

lemma unlink_existing_eq:
  "unlink_existing names cwd = (\<lambda>n. if n \<in> set names then None else cwd n)"
  by (induction names arbitrary: cwd) (auto simp: fun_eq_iff)

lemma copy_regular_files_other:
  "n \<notin> regular_names entries \<Longrightarrow> copy_regular_files entries cwd n = cwd n"
proof (induction entries arbitrary: cwd)
  case Nil
  show ?case by simp
next
  case (Cons a entries)
  obtain name ent where a: "a = (name, ent)" by (cases a)
  from Cons show ?case by (cases ent) (simp_all add: a)
qed

lemma copy_regular_files_dom:
  "dom (copy_regular_files entries cwd) = dom cwd \<union> regular_names entries"
proof (induction entries arbitrary: cwd)
  case Nil
  show ?case by simp
next
  case (Cons a entries)
  obtain name ent where a: "a = (name, ent)" by (cases a)
  show ?case
  proof (cases ent)
    case (RegularFile x)
    have "dom (copy_regular_files entries (cwd(name \<mapsto> x)))
        = dom (cwd(name \<mapsto> x)) \<union> regular_names entries"
      by (rule Cons.IH)
    then show ?thesis by (simp add: a RegularFile)
  next
    case Subdirectory
    have "dom (copy_regular_files entries cwd) = dom cwd \<union> regular_names entries"
      by (rule Cons.IH)
    then show ?thesis by (simp add: a Subdirectory)
  qed
qed

lemma copy_regular_files_content:
  "distinct (map fst entries) \<Longrightarrow> (n, RegularFile t) \<in> set entries \<Longrightarrow>
   copy_regular_files entries cwd n = Some t"
proof (induction entries arbitrary: cwd)
  case Nil
  then show ?case by simp
next
  case (Cons a entries)
  obtain name ent where a: "a = (name, ent)" by (cases a)
  show ?case
  proof (cases "(n, RegularFile t) = a")
    case True
    with a have eq: "name = n" "ent = RegularFile t" by auto
    from Cons.prems(1) a eq have "n \<notin> fst ` set entries" by simp
    then have "n \<notin> regular_names entries"
      by (force simp: regular_names_iff)
    then show ?thesis by (simp add: a eq copy_regular_files_other)
  next
    case False
    with Cons.prems have "(n, RegularFile t) \<in> set entries" "distinct (map fst entries)"
      by auto
    then have "\<And>cwd. copy_regular_files entries cwd n = Some t"
      using Cons.IH by blast
    then show ?thesis by (cases ent) (simp_all add: a)
  qed
qed

text \<open>
  Claim C9. \<^verbatim>\<open>fake_run_vasp\<close> runs the requested checks of the INCAR, KPOINTS, POSCAR
  and POTCAR files before it clears or copies anything: when a requested check raises,
  the call raises with the working directory as it was, and a call that leaves the
  working directory changed has passed every requested check.
\<close>

theorem fake_run_vasp_checks_before_effects:
  "(input_checks pmg ref_path incar_settings check_inputs cwd = Some e \<longrightarrow>
      fake_run_vasp pmg ref_path incar_settings check_inputs clear_inputs cwd = (Some e, cwd)) \<and>
   ((''incar'' \<in> set check_inputs \<and> check_incar pmg ref_path incar_settings cwd \<noteq> None) \<or>
    (''kpoints'' \<in> set check_inputs \<and> check_kpoints pmg ref_path cwd \<noteq> None) \<or>
    (''poscar'' \<in> set check_inputs \<and> check_poscar pmg ref_path cwd \<noteq> None) \<or>
    (''potcar'' \<in> set check_inputs \<and> check_potcar pmg ref_path cwd \<noteq> None) \<longrightarrow>
      (\<exists>e'. fake_run_vasp pmg ref_path incar_settings check_inputs clear_inputs cwd
              = (Some e', cwd))) \<and>
   (fake_run_vasp pmg ref_path incar_settings check_inputs clear_inputs cwd = (r, cwd') \<and>
    cwd' \<noteq> cwd \<longrightarrow>
      input_checks pmg ref_path incar_settings check_inputs cwd = None)"
proof (intro conjI impI)
  assume "input_checks pmg ref_path incar_settings check_inputs cwd = Some e"
  then show "fake_run_vasp pmg ref_path incar_settings check_inputs clear_inputs cwd = (Some e, cwd)"
    by (simp add: fake_run_vasp_def)
next
  assume "(''incar'' \<in> set check_inputs \<and> check_incar pmg ref_path incar_settings cwd \<noteq> None) \<or>
    (''kpoints'' \<in> set check_inputs \<and> check_kpoints pmg ref_path cwd \<noteq> None) \<or>
    (''poscar'' \<in> set check_inputs \<and> check_poscar pmg ref_path cwd \<noteq> None) \<or>
    (''potcar'' \<in> set check_inputs \<and> check_potcar pmg ref_path cwd \<noteq> None)"
  then have "input_checks pmg ref_path incar_settings check_inputs cwd \<noteq> None"
    by (auto simp: input_checks_def split: option.splits)
  then obtain e' where "input_checks pmg ref_path incar_settings check_inputs cwd = Some e'"
    by blast
  then have "fake_run_vasp pmg ref_path incar_settings check_inputs clear_inputs cwd = (Some e', cwd)"
    by (simp add: fake_run_vasp_def)
  then show "\<exists>e'. fake_run_vasp pmg ref_path incar_settings check_inputs clear_inputs cwd
              = (Some e', cwd)" ..
next
  assume "fake_run_vasp pmg ref_path incar_settings check_inputs clear_inputs cwd = (r, cwd') \<and>
    cwd' \<noteq> cwd"
  then show "input_checks pmg ref_path incar_settings check_inputs cwd = None"
    by (auto simp: fake_run_vasp_def split: option.splits)
qed

theorem fake_run_vasp_checks_before_effects_witness:
  "fake_run_vasp text_parsers other_ref [''NSW''] [''incar'', ''potcar''] True work_dir
     = (Some (ValueError ''INCAR value of NSW is inconsistent''), work_dir) \<and>
   fake_run_vasp text_parsers good_ref [''NSW''] [''kpoints''] True work_dir
     = (Some (FileNotFoundError ''KPOINTS''), work_dir)"
  using
    fake_run_vasp_checks_before_effects [of text_parsers other_ref "[''NSW'']" "[''incar'', ''potcar'']" work_dir
           "ValueError ''INCAR value of NSW is inconsistent''" True None work_dir]
    fake_run_vasp_checks_before_effects [of text_parsers good_ref "[''NSW'']" "[''kpoints'']" work_dir
           "FileNotFoundError ''KPOINTS''" True None work_dir]
  by (simp add: input_checks_def check_incar_def check_kpoints_def from_file_def text_parsers_def
        other_ref_def good_ref_def work_dir_def dict_get_def incar_defaults_def)

text \<open>
  Claim C7. \<^verbatim>\<open>fake_run_vasp\<close> runs no program. When the requested checks pass (and the
  reference directory has its folder \<^verbatim>\<open>outputs\<close>), it returns without an exception, and
  the working directory then holds exactly the files it held before, less the cleared
  inputs when \<^verbatim>\<open>clear_inputs\<close> is set, together with the regular files of the folder
  \<^verbatim>\<open>outputs\<close>, each with the text of the reference file; files that are not reference
  outputs keep their text.
\<close>

theorem fake_run_vasp_copies_reference_outputs:
  "input_checks pmg ref_path incar_settings check_inputs cwd = None \<and>
   outputs_dir ref_path = Some entries \<longrightarrow>
   (\<exists>cwd'. fake_run_vasp pmg ref_path incar_settings check_inputs clear_inputs cwd = (None, cwd') \<and>
      dom cwd' = (dom cwd - (if clear_inputs then set cleared_inputs else {}))
                   \<union> regular_names entries \<and>
      (\<forall>n. n \<notin> regular_names entries \<longrightarrow>
         cwd' n = (if clear_inputs \<and> n \<in> set cleared_inputs then None else cwd n)) \<and>
      (distinct (map fst entries) \<longrightarrow>
         (\<forall>n t. (n, RegularFile t) \<in> set entries \<longrightarrow> cwd' n = Some t)))"
proof
  assume a: "input_checks pmg ref_path incar_settings check_inputs cwd = None \<and>
   outputs_dir ref_path = Some entries"
  let ?cwd1 = "if clear_inputs then clear_vasp_inputs cwd else cwd"
  let ?cwd' = "copy_regular_files entries ?cwd1"
  have run: "fake_run_vasp pmg ref_path incar_settings check_inputs clear_inputs cwd = (None, ?cwd')"
    using a by (simp add: fake_run_vasp_def copy_vasp_outputs_conftest_def)
  have cwd1: "?cwd1 = (\<lambda>n. if clear_inputs \<and> n \<in> set cleared_inputs then None else cwd n)"
    by (auto simp: clear_vasp_inputs_def unlink_existing_eq)
  have "dom ?cwd1 = dom cwd - (if clear_inputs then set cleared_inputs else {})"
    by (subst cwd1) (auto simp: dom_def)
  then have d: "dom ?cwd' = (dom cwd - (if clear_inputs then set cleared_inputs else {}))
                   \<union> regular_names entries"
    by (simp only: copy_regular_files_dom)
  have o: "\<forall>n. n \<notin> regular_names entries \<longrightarrow>
         ?cwd' n = (if clear_inputs \<and> n \<in> set cleared_inputs then None else cwd n)"
  proof (intro allI impI)
    fix n assume "n \<notin> regular_names entries"
    then have "?cwd' n = ?cwd1 n" by (rule copy_regular_files_other)
    also have "\<dots> = (if clear_inputs \<and> n \<in> set cleared_inputs then None else cwd n)"
      by (subst cwd1) simp
    finally show "?cwd' n = (if clear_inputs \<and> n \<in> set cleared_inputs then None else cwd n)" .
  qed
  have c: "distinct (map fst entries) \<longrightarrow>
         (\<forall>n t. (n, RegularFile t) \<in> set entries \<longrightarrow> ?cwd' n = Some t)"
    using copy_regular_files_content by blast
  from run d o c show "\<exists>cwd'. fake_run_vasp pmg ref_path incar_settings check_inputs clear_inputs cwd = (None, cwd') \<and>
      dom cwd' = (dom cwd - (if clear_inputs then set cleared_inputs else {}))
                   \<union> regular_names entries \<and>
      (\<forall>n. n \<notin> regular_names entries \<longrightarrow>
         cwd' n = (if clear_inputs \<and> n \<in> set cleared_inputs then None else cwd n)) \<and>
      (distinct (map fst entries) \<longrightarrow>
         (\<forall>n t. (n, RegularFile t) \<in> set entries \<longrightarrow> cwd' n = Some t))"
    by blast
qed

theorem fake_run_vasp_copies_reference_outputs_witness:
  "input_checks text_parsers good_ref [''NSW''] [''incar'', ''potcar''] work_dir = None \<and>
   fst (fake_run_vasp text_parsers good_ref [''NSW''] [''incar'', ''potcar''] True work_dir) = None \<and>
   dom (snd (fake_run_vasp text_parsers good_ref [''NSW''] [''incar'', ''potcar''] True work_dir))
     = {''POTCAR.spec'', ''job.sh'', ''OUTCAR'', ''vasprun.xml''} \<and>
   snd (fake_run_vasp text_parsers good_ref [''NSW''] [''incar'', ''potcar''] True work_dir) ''OUTCAR''
     = Some ''done''"
proof -
  have checks: "input_checks text_parsers good_ref [''NSW''] [''incar'', ''potcar''] work_dir = None"
    by (simp add: input_checks_def check_incar_def check_potcar_def from_file_def
          text_parsers_def good_ref_def work_dir_def dict_get_def incar_defaults_def)
  have out: "outputs_dir good_ref = Some [(''OUTCAR'', RegularFile ''done''), (''scratch'', Subdirectory),
                          (''vasprun.xml'', RegularFile ''<xml/>'')]"
    by (simp add: good_ref_def)
  have d: "dom work_dir = {''INCAR'', ''POTCAR.spec'', ''job.sh''}"
    by (auto simp: work_dir_def)
  note ex = mp [OF fake_run_vasp_copies_reference_outputs [where clear_inputs = True], OF conjI [OF checks out]]
  from ex obtain cwd' where r: "fake_run_vasp text_parsers good_ref [''NSW''] [''incar'', ''potcar''] True work_dir = (None, cwd')"
    and dd: "dom cwd' = (dom work_dir - (if True then set cleared_inputs else {}))
                   \<union> regular_names [(''OUTCAR'', RegularFile ''done''), (''scratch'', Subdirectory),
                          (''vasprun.xml'', RegularFile ''<xml/>'')]"
    and cont: "distinct (map fst [(''OUTCAR'', RegularFile ''done''), (''scratch'', Subdirectory),
                          (''vasprun.xml'', RegularFile ''<xml/>'')]) \<longrightarrow>
         (\<forall>n t. (n, RegularFile t) \<in> set [(''OUTCAR'', RegularFile ''done''), (''scratch'', Subdirectory),
                          (''vasprun.xml'', RegularFile ''<xml/>'')] \<longrightarrow> cwd' n = Some t)"
    by blast
  from cont have cc: "cwd' ''OUTCAR'' = Some ''done''" by simp
  from dd d have "dom cwd' = {''POTCAR.spec'', ''job.sh'', ''OUTCAR'', ''vasprun.xml''}"
    by (auto simp: cleared_inputs_def)
  with r cc checks show ?thesis by simp
qed

end
